theory Spec2Isabelle
  imports Complex_Main "HOL-Library.Product_Lexorder" "HOL-Library.List_Lexorder"
    "HOL-Library.Char_ord"
begin

section \<open>Data model\<close>

text \<open>
  The rows the personalization service and the scheduler read through Prisma, with the
  columns the code touches. Timestamps are milliseconds since the epoch (what
  \<^verbatim>\<open>Date.prototype.getTime\<close> returns), counters are integers, and JavaScript numbers
  that are not integers are modelled as exact rationals.
  A field that exists in several tables carries the table's initial as a prefix.
\<close>

datatype difficulty = EASY | MEDIUM | HARD | EXPERT

datatype notificationStatus = PENDING | SENT | DELIVERED | OPENED | FAILED | CANCELLED

datatype trend = increasing | decreasing | stable

text \<open>
  A fact row. \<open>personalizedScore\<close> is the property that \<^verbatim>\<open>scoreAndRankFacts\<close> adds
  to a copy of the row; it is absent (\<open>None\<close>) on rows as the database returns them.
\<close>

record fact =
  f_id :: string
  categoryId :: string
  difficulty :: difficulty
  tags :: "string list"
  isApproved :: bool
  isFeatured :: bool
  f_isActive :: bool
  viewCount :: int
  likeCount :: int
  shareCount :: int
  publishedAt :: "int option"
  f_createdAt :: int
  personalizedScore :: "rat option"

record interactionStats =
  totalViewed :: nat
  totalLiked :: nat
  totalBookmarked :: nat
  totalShared :: nat
  recentActivity :: nat
  likeRate :: rat
  bookmarkRate :: rat
  shareRate :: rat
  engagementScore :: rat

record learningPatterns =
  difficultyProgression :: trend
  topicDiversity :: rat
  engagementTrends :: trend
  preferredTags :: "string list"
  learningVelocity :: rat
  consistencyScore :: rat

text \<open>
  The profile object of \<^verbatim>\<open>getUserProfile\<close>: the selected user columns, spread, and the
  derived fields. \<open>categoryPreferences\<close> maps a category id to the \<^verbatim>\<open>engagement\<close> of
  its entry (the entry's \<^verbatim>\<open>name\<close> is never read).
\<close>

record userProfile =
  p_id :: string
  p_difficultyLevel :: difficulty
  p_currentStreak :: int
  p_longestStreak :: int
  preferredCategories :: "string list"
  categoryPreferences :: "string \<rightharpoonup> rat"
  p_interactionStats :: interactionStats
  p_learningPatterns :: learningPatterns
  personalityScore :: rat

text \<open>The other tables.\<close>

record userFact =
  uf_userId :: string
  uf_factId :: string
  isViewed :: bool
  isLiked :: bool
  isBookmarked :: bool
  isShared :: bool
  viewedAt :: "int option"
  uf_updatedAt :: int

text \<open>A \<^verbatim>\<open>userFact\<close> row read with \<^verbatim>\<open>include: { fact: ... }\<close>.\<close>

record userFactWithFact = userFact +
  uf_fact :: fact

record user =
  u_id :: string
  difficultyLevel :: difficulty
  currentStreak :: int
  longestStreak :: int
  u_isActive :: bool
  notificationsEnabled :: bool
  maxNotificationsPerDay :: int

record userCategory =
  uc_userId :: string
  uc_categoryId :: string
  isEnabled :: bool

record notification =
  n_id :: string
  n_userId :: string
  n_factId :: "string option"
  n_status :: notificationStatus
  retryCount :: nat
  nextRetryAt :: "int option"
  n_createdAt :: int
  sentAt :: "int option"
  errorMessage :: "string option"

record userSession =
  s_userId :: string
  s_isActive :: bool
  expiresAt :: int

text \<open>The tables, each in the order in which the database returns its rows.\<close>

record database =
  facts :: "fact list"
  userFacts :: "userFact list"
  users :: "user list"
  userCategories :: "userCategory list"
  notifications :: "notification list"
  userSessions :: "userSession list"

section \<open>Scoring engine\<close>

text \<open>\<^verbatim>\<open>difficultyOrder.indexOf(d)\<close> for \<^verbatim>\<open>['EASY', 'MEDIUM', 'HARD', 'EXPERT']\<close>.\<close>

fun difficultyOrder_indexOf :: "difficulty \<Rightarrow> int" where
  "difficultyOrder_indexOf EASY = 0"
| "difficultyOrder_indexOf MEDIUM = 1"
| "difficultyOrder_indexOf HARD = 2"
| "difficultyOrder_indexOf EXPERT = 3"

definition calculateDifficultyMatch :: "difficulty \<Rightarrow> userProfile \<Rightarrow> rat" where
  "calculateDifficultyMatch factDifficulty userProfile =
     (let userDifficulty = p_difficultyLevel userProfile;
          factLevel = difficultyOrder_indexOf factDifficulty;
          userLevel = difficultyOrder_indexOf userDifficulty
      in if factLevel = userLevel then 1
         else if \<bar>factLevel - userLevel\<bar> = 1 then 7 / 10
         else if \<bar>factLevel - userLevel\<bar> = 2 then 4 / 10
         else 1 / 10)"

definition calculateTagScore :: "string list \<Rightarrow> string list \<Rightarrow> rat" where
  "calculateTagScore factTags prefTags =
     (if length factTags = 0 \<or> length prefTags = 0 then 1 / 2
      else let matches = filter (\<lambda>tag. tag \<in> set prefTags) factTags
           in of_nat (length matches) / of_nat (max (length factTags) (length prefTags)))"

definition calculatePopularityScore :: "fact \<Rightarrow> rat" where
  "calculatePopularityScore fct =
     (let totalInteractions = viewCount fct + likeCount fct * 2 + shareCount fct * 3
      in min 1 (of_int totalInteractions / 100))"

text \<open>\<open>dateNow\<close> is the value of \<^verbatim>\<open>Date.now()\<close> at the call.\<close>

definition calculateFreshnessScore :: "int \<Rightarrow> int \<Rightarrow> rat" where
  "calculateFreshnessScore dateNow createdAt =
     (let daysSinceCreation = of_int (dateNow - createdAt) / of_int (24 * 60 * 60 * 1000)
      in max 0 (1 - daysSinceCreation / 365))"

definition calculatePersonalityMatch :: "fact \<Rightarrow> rat \<Rightarrow> rat" where
  "calculatePersonalityMatch fct pScore = pScore * (1 / 2) + 1 / 2"

definition calculateFactScore :: "int \<Rightarrow> fact \<Rightarrow> userProfile \<Rightarrow> rat" where
  "calculateFactScore dateNow fct userProfile =
     (let score0 = 0;
          score1 =
            (if categoryId fct \<in> set (preferredCategories userProfile)
             then let categoryEngagement =
                        (case categoryPreferences userProfile (categoryId fct) of
                           None \<Rightarrow> 0 | Some e \<Rightarrow> e)
                  in score0 + (4 / 10) * (1 / 2 + categoryEngagement * (1 / 2))
             else score0 + (4 / 10) * (1 / 10));
          difficultyMatch = calculateDifficultyMatch (difficulty fct) userProfile;
          score2 = score1 + (25 / 100) * difficultyMatch;
          tagScore = calculateTagScore (tags fct)
                       (preferredTags (p_learningPatterns userProfile));
          score3 = score2 + (15 / 100) * tagScore;
          popularityScore = calculatePopularityScore fct;
          score4 = score3 + (1 / 10) * popularityScore;
          freshnessScore = calculateFreshnessScore dateNow (f_createdAt fct);
          score5 = score4 + (5 / 100) * freshnessScore;
          pScore = calculatePersonalityMatch fct (personalityScore userProfile);
          score6 = score5 + (5 / 100) * pScore
      in min 1 (max 0 score6))"

section \<open>Interaction analyzer\<close>




text \<open>
  \<^verbatim>\<open>new Set(...).size\<close> is the number of distinct category ids, here the length of
  the list without its duplicates.
\<close>

definition analyzeTopicDiversity :: "userFactWithFact list \<Rightarrow> rat" where
  "analyzeTopicDiversity recentViews =
     (if length recentViews = 0 then 0
      else let uniqueCategories = remdups (map (\<lambda>v. categoryId (uf_fact v)) recentViews)
           in of_nat (length uniqueCategories) / of_nat (min (length recentViews) 8))"








text \<open>
  \<^verbatim>\<open>Array.prototype.sort\<close> without a comparator orders the numbers by their decimal
  strings, compared code unit by code unit; it is stable.
\<close>

fun decimal :: "nat \<Rightarrow> string" where
  "decimal n =
     (if n < 10 then [char_of (48 + n)] else decimal (n div 10) @ [char_of (48 + n mod 10)])"

definition number_toString :: "int \<Rightarrow> string" where
  "number_toString i = (if i < 0 then CHR ''-'' # decimal (nat (- i)) else decimal (nat i))"

definition array_sort :: "int list \<Rightarrow> int list" where
  "array_sort xs = sort_key number_toString xs"

text \<open>The loop of \<^verbatim>\<open>calculateConsistencyScore\<close>, carrying \<^verbatim>\<open>totalDeviation\<close>.\<close>

fun deviation_loop :: "int list \<Rightarrow> rat \<Rightarrow> rat \<Rightarrow> rat" where
  "deviation_loop (previous # current # rest) expectedInterval totalDeviation =
     (let actualInterval = current - previous
      in deviation_loop (current # rest) expectedInterval
           (totalDeviation + \<bar>of_int actualInterval - expectedInterval\<bar>))"
| "deviation_loop _ expectedInterval totalDeviation = totalDeviation"

text \<open>\<^verbatim>\<open>new Date(v.viewedAt).getTime()\<close>; a null date reads as 0.\<close>

definition viewedAt_getTime :: "userFactWithFact \<Rightarrow> int" where
  "viewedAt_getTime v = (case viewedAt v of None \<Rightarrow> 0 | Some t \<Rightarrow> t)"

definition calculateConsistencyScore :: "userFactWithFact list \<Rightarrow> rat" where
  "calculateConsistencyScore recentViews =
     (if length recentViews < 3 then 0
      else let viewDates = array_sort (map viewedAt_getTime recentViews);
               timeSpan = last viewDates - hd viewDates
           in if timeSpan = 0 then 1
              else let expectedInterval = (of_int timeSpan :: rat) / of_nat (length viewDates - 1);
                       totalDeviation = deviation_loop viewDates expectedInterval 0;
                       avgDeviation = totalDeviation / of_nat (length viewDates - 1)
                   in max 0 (1 - avgDeviation / expectedInterval))"

section \<open>Candidate selector: diversification\<close>

text \<open>
  \<^verbatim>\<open>categoryCount\<close> and \<^verbatim>\<open>difficultyCount\<close> are object literals used as
  dictionaries, so a key that the object does not own is looked up in
  \<^verbatim>\<open>Object.prototype\<close>. These are the property names of \<^verbatim>\<open>Object.prototype\<close>.
\<close>

definition object_prototype_names :: "string list" where
  "object_prototype_names =
     [''constructor'', ''__defineGetter__'', ''__defineSetter__'', ''hasOwnProperty'',
      ''__lookupGetter__'', ''__lookupSetter__'', ''isPrototypeOf'', ''propertyIsEnumerable'',
      ''toString'', ''valueOf'', ''__proto__'', ''toLocaleString'']"

text \<open>
  What \<^verbatim>\<open>categoryCount[key] || 0\<close> can be: a count, or a value that is not a number.
  For an id that names a property of \<^verbatim>\<open>Object.prototype\<close> and that the dictionary
  does not own, it is the inherited member (a function, or the prototype itself for
  \<^verbatim>\<open>__proto__\<close>). \<^verbatim>\<open>>=\<close> converts such a value to \<^verbatim>\<open>NaN\<close> and is false;
  \<^verbatim>\<open>+ 1\<close> appends to its string, so that what is stored under the key is not a number
  either (the assignment to \<^verbatim>\<open>__proto__\<close> has no effect, and the key goes on reading
  as the prototype). For every other id a missing key reads as 0.
\<close>

datatype count_value = Count nat | Not_a_number

definition category_or_0 :: "(string \<rightharpoonup> count_value) \<Rightarrow> string \<Rightarrow> count_value" where
  "category_or_0 categoryCount key =
     (case categoryCount key of
        Some v \<Rightarrow> v
      | None \<Rightarrow> if key \<in> set object_prototype_names then Not_a_number else Count 0)"

fun at_least :: "count_value \<Rightarrow> nat \<Rightarrow> bool" where
  "at_least (Count c) cap = (c \<ge> cap)"
| "at_least Not_a_number cap = False"

fun plus_1 :: "count_value \<Rightarrow> count_value" where
  "plus_1 (Count c) = Count (c + 1)"
| "plus_1 Not_a_number = Not_a_number"

text \<open>
  The keys of \<^verbatim>\<open>difficultyCount\<close> are the four names of the enumeration, none of which
  is a property of \<^verbatim>\<open>Object.prototype\<close>: there a missing key reads as 0.
\<close>

definition count_or_0 :: "('k \<rightharpoonup> nat) \<Rightarrow> 'k \<Rightarrow> nat" where
  "count_or_0 m k = (case m k of None \<Rightarrow> 0 | Some c \<Rightarrow> c)"

text \<open>
  The first loop of \<^verbatim>\<open>addDiversityToSelection\<close>.
  \<^verbatim>\<open>Math.floor(limit / 2.5)\<close> is \<open>2 * limit div 5\<close>.
\<close>

fun diversity_loop ::
  "nat \<Rightarrow> (string \<rightharpoonup> count_value) \<Rightarrow> (difficulty \<rightharpoonup> nat) \<Rightarrow> fact list \<Rightarrow> fact list
     \<Rightarrow> fact list"
where
  "diversity_loop limit categoryCount difficultyCount selected [] = selected"
| "diversity_loop limit categoryCount difficultyCount selected (fct # rest) =
     (if length selected \<ge> limit then selected
      else let categoryKey = categoryId fct; difficultyKey = difficulty fct
           in if at_least (category_or_0 categoryCount categoryKey) (max 1 (limit div 3))
              then diversity_loop limit categoryCount difficultyCount selected rest
              else if count_or_0 difficultyCount difficultyKey \<ge> max 2 (2 * limit div 5)
              then diversity_loop limit categoryCount difficultyCount selected rest
              else diversity_loop limit
                     (categoryCount(categoryKey \<mapsto> plus_1 (category_or_0 categoryCount categoryKey)))
                     (difficultyCount(difficultyKey \<mapsto> count_or_0 difficultyCount difficultyKey + 1))
                     (selected @ [fct]) rest)"

text \<open>The \<^verbatim>\<open>for\<close> loop inside the backfill \<^verbatim>\<open>while\<close> loop: one pass over all facts.\<close>

fun fill_pass :: "nat \<Rightarrow> fact list \<Rightarrow> fact list \<Rightarrow> fact list" where
  "fill_pass limit selected [] = selected"
| "fill_pass limit selected (fct # rest) =
     (if length selected \<ge> limit then selected
      else if find (\<lambda>f. f_id f = f_id fct) selected = None
      then fill_pass limit (selected @ [fct]) rest
      else fill_pass limit selected rest)"

text \<open>
  The backfill \<^verbatim>\<open>while\<close> loop. Nothing in the code bounds its iterations, so the model
  is a partial function: \<open>None\<close> is a loop that does not end. The argument \<open>facts'\<close> is the
  source's \<^verbatim>\<open>facts\<close>.
\<close>

partial_function (option) fill_loop :: "nat \<Rightarrow> fact list \<Rightarrow> fact list \<Rightarrow> fact list option" where
  "fill_loop limit facts' selected =
     (if length selected < limit \<and> length selected < length facts'
      then fill_loop limit facts' (fill_pass limit selected facts')
      else Some selected)"

definition addDiversityToSelection :: "fact list \<Rightarrow> nat \<Rightarrow> fact list option" where
  "addDiversityToSelection facts' limit =
     (if length facts' \<le> limit then Some facts'
      else fill_loop limit facts' (diversity_loop limit Map.empty Map.empty [] facts'))"

text \<open>How often a category occurs in a selection: what the category cap bounds.\<close>

definition category_count :: "string \<Rightarrow> fact list \<Rightarrow> nat" where
  "category_count c xs = length (filter (\<lambda>f. categoryId f = c) xs)"

section \<open>Repository, cache and clock\<close>

text \<open>
  Every awaited call on Prisma may reject. \<open>call\<close> names the call sites; the
  environment says which of them reject in the run at hand. The two update sites inside
  the retry loop carry the id of the row they update.
\<close>

datatype call =
    UserFindUnique | ProfileCategoriesFindMany | StatsCount | StatsGroupBy
  | PatternsFindMany | ScoresFindMany
  | ViewedFindMany | CandidatesFindMany
  | SimilarCategoriesFindMany | SimilarUsersFindMany | RecommendedFindMany | FallbackFindMany
  | NotificationCount | DailyCategoriesFindMany | DailySeenFindMany | DailyFactsFindMany
  | DailyFallbackFindMany
  | SessionFindMany | NotificationCreate | NotificationUpdate
  | RetryFindMany | RetryCancelUpdate string | RetryUpdate string

datatype error = Rejected call | TypeError

text \<open>The object a send function of the notification service returns.\<close>

record sendResult =
  success :: bool
  error :: "string option"

text \<open>
  The personalization service takes \<^verbatim>\<open>cacheGet\<close> and \<^verbatim>\<open>cacheSet\<close> from
  \<^verbatim>\<open>config/redis\<close>. That module exports \<^verbatim>\<open>client\<close>, \<^verbatim>\<open>connectRedis\<close>,
  \<^verbatim>\<open>disconnectRedis\<close>, \<^verbatim>\<open>cache\<close>, \<^verbatim>\<open>cacheKeys\<close> and \<^verbatim>\<open>checkRedisHealth\<close>,
  and neither of the two: both names are \<^verbatim>\<open>undefined\<close> in the service, and a call of
  either throws a \<^verbatim>\<open>TypeError\<close>. The result type is that of the call as the service
  writes it: the cached value, if any, for \<^verbatim>\<open>cacheGet\<close>.
\<close>

definition cacheGet :: "string \<Rightarrow> error + 'a option" where
  "cacheGet key = Inl TypeError"

definition cacheSet :: "string \<Rightarrow> 'a \<Rightarrow> nat \<Rightarrow> error + unit" where
  "cacheSet key v ttl = Inl TypeError"

text \<open>
  The environment of one run: the clock, the rejecting call sites, the value of
  \<^verbatim>\<open>Math.random()\<close>, the time zone of the process, the id the database gives a created
  notification, and the outcome of the push transport.
  \<open>localTZA t isUTC\<close> is the offset of the zone from UTC in milliseconds: at the instant
  \<open>t\<close> when \<open>isUTC\<close>, and at the local time \<open>t\<close> otherwise (the language's
  \<^verbatim>\<open>LocalTZA\<close>).
\<close>

record env =
  now :: int
  fails :: "call \<Rightarrow> bool"
  random :: rat
  localTZA :: "int \<Rightarrow> bool \<Rightarrow> int"
  createdId :: string
  sendNotification :: "string \<Rightarrow> sendResult"
  sendMulticastNotification :: "string list \<Rightarrow> sendResult"

text \<open>
  The filter \<^verbatim>\<open>isApproved: true, isActive: true, publishedAt: { lte: new Date() }\<close>;
  a null \<^verbatim>\<open>publishedAt\<close> does not satisfy \<^verbatim>\<open>lte\<close>.
\<close>

definition eligible :: "int \<Rightarrow> fact \<Rightarrow> bool" where
  "eligible t fct =
     (isApproved fct \<and> f_isActive fct \<and> (case publishedAt fct of None \<Rightarrow> False | Some p \<Rightarrow> p \<le> t))"



section \<open>Profile builder\<close>

definition zero_stats :: interactionStats where
  "zero_stats = \<lparr>totalViewed = 0, totalLiked = 0, totalBookmarked = 0, totalShared = 0,
     recentActivity = 0, likeRate = 0, bookmarkRate = 0, shareRate = 0, engagementScore = 0\<rparr>"






section \<open>Candidate selector\<close>

text \<open>
  \<^verbatim>\<open>calculatePersonalizationScores\<close>: the dictionary from fact id to score. Its
  \<^verbatim>\<open>catch\<close> returns the empty dictionary, for a rejected query and for the
  \<^verbatim>\<open>TypeError\<close> of a cache call alike.
\<close>

definition calculatePersonalizationScores ::
  "env \<Rightarrow> database \<Rightarrow> string \<Rightarrow> userProfile \<Rightarrow> (string \<rightharpoonup> rat)" where
  "calculatePersonalizationScores e db userId userProfile =
     (let cacheKey = ''fact_scores:'' @ userId
      in case cacheGet cacheKey of
        Inl err \<Rightarrow> Map.empty
      | Inr (Some scores) \<Rightarrow> scores
      | Inr None \<Rightarrow>
         (if fails e ScoresFindMany then Map.empty
          else let scores = foldl (\<lambda>acc fct. acc(f_id fct \<mapsto> calculateFactScore (now e) fct userProfile))
                              Map.empty (filter (eligible (now e)) (facts db))
               in case cacheSet cacheKey scores 7200 of
                    Inl err \<Rightarrow> Map.empty
                  | Inr stored \<Rightarrow> scores))"




section \<open>Similarity recommender\<close>





section \<open>Personalized selection\<close>






section \<open>Notification service\<close>

text \<open>
  \<^verbatim>\<open>sendDailyFactNotification\<close>, returning the database after the call and either the
  error it throws or the result object it returns. The source binds \<^verbatim>\<open>fcmTokens\<close> to
  the constant empty array; the body is modelled for any token list, and the source
  function is its instance at the empty list. \<^verbatim>\<open>catch\<close> rethrows.
\<close>

definition sendDailyFactNotification_with ::
  "string list \<Rightarrow> env \<Rightarrow> database \<Rightarrow> string \<Rightarrow> fact \<Rightarrow> database \<times> (error + sendResult)" where
  "sendDailyFactNotification_with fcmTokens e db userId fct =
     (if fails e SessionFindMany then (db, Inl (Rejected SessionFindMany))
      else if length fcmTokens = 0
      then (db, Inr \<lparr>success = False, error = Some ''No FCM tokens''\<rparr>)
      else if fails e NotificationCreate then (db, Inl (Rejected NotificationCreate))
      else let notificationRecord = \<lparr>n_id = createdId e, n_userId = userId,
                 n_factId = Some (f_id fct), n_status = PENDING, retryCount = 0,
                 nextRetryAt = None, n_createdAt = now e, sentAt = None, errorMessage = None\<rparr>;
               db1 = db\<lparr>notifications := notifications db @ [notificationRecord]\<rparr>;
               result = (if length fcmTokens = 1 then sendNotification e (fcmTokens ! 0)
                         else sendMulticastNotification e fcmTokens)
           in if fails e NotificationUpdate then (db1, Inl (Rejected NotificationUpdate))
              else (db1\<lparr>notifications := map (\<lambda>n. if n_id n = n_id notificationRecord
                           then n\<lparr>n_status := (if success result then SENT else FAILED),
                                  sentAt := (if success result then Some (now e) else None),
                                  errorMessage := error result\<rparr>
                           else n) (notifications db1)\<rparr>,
                    Inr result))"

definition sendDailyFactNotification ::
  "env \<Rightarrow> database \<Rightarrow> string \<Rightarrow> fact \<Rightarrow> database \<times> (error + sendResult)" where
  "sendDailyFactNotification = sendDailyFactNotification_with []"


text \<open>\<^verbatim>\<open>prisma.notification.update({ where: { id }, data })\<close>.\<close>

definition notification_update ::
  "string \<Rightarrow> (notification \<Rightarrow> notification) \<Rightarrow> database \<Rightarrow> database" where
  "notification_update i change db =
     db\<lparr>notifications := map (\<lambda>n. if n_id n = i then change n else n) (notifications db)\<rparr>"

text \<open>\<^verbatim>\<open>Math.pow(2, retryCount + 1) * 5\<close>, the minutes of the backoff.\<close>

definition backoff_minutes :: "nat \<Rightarrow> int" where
  "backoff_minutes count = 2 ^ (count + 1) * 5"

text \<open>
  \<^verbatim>\<open>d.setMinutes(d.getMinutes() + k)\<close> on a date that holds the instant \<open>t\<close>, as the
  new time value. \<^verbatim>\<open>Date.prototype.setMinutes\<close> works on local time: it takes the
  local time of \<open>t\<close> (the instant plus the zone's offset at it), replaces the minutes,
  which moves the local time by \<open>k\<close> minutes, and converts the local time back (minus the
  zone's offset at that local time). The clock is far inside the range of time values, so
  the clipping of the result to that range is left out.
\<close>

definition setMinutes_plus :: "env \<Rightarrow> int \<Rightarrow> int \<Rightarrow> int" where
  "setMinutes_plus e t k =
     (let localTime = t + localTZA e t True;
          date = localTime + k * 60000
      in date - localTZA e date False)"

text \<open>The retry time: \<^verbatim>\<open>new Date()\<close> moved by the minutes of the backoff.\<close>

definition retry_time :: "env \<Rightarrow> notification \<Rightarrow> int" where
  "retry_time e n = setMinutes_plus e (now e) (backoff_minutes (retryCount n))"



text \<open>
  What one iteration of the loop does to the record it is at, when its update is accepted:
  cancelled when the owning user has disabled notifications; otherwise the retry count is
  incremented and the next retry is due at the retry time. This is what a run of the loop
  is compared with.
\<close>

definition retry_effect :: "env \<Rightarrow> user list \<Rightarrow> notification \<Rightarrow> notification" where
  "retry_effect e us n =
     (case find (\<lambda>u. u_id u = n_userId n) us of
        None \<Rightarrow> n
      | Some usr \<Rightarrow>
         if \<not> notificationsEnabled usr then n\<lparr>n_status := CANCELLED\<rparr>
         else n\<lparr>retryCount := retryCount n + 1, nextRetryAt := Some (retry_time e n)\<rparr>)"

section \<open>Distribution scheduler\<close>

text \<open>
  \<^verbatim>\<open>xs[Math.floor(Math.random() * xs.length)]\<close>; \<open>None\<close> is \<^verbatim>\<open>undefined\<close>.
\<close>

definition random_element :: "env \<Rightarrow> 'a list \<Rightarrow> 'a option" where
  "random_element e xs =
     (let i = \<lfloor>random e * of_nat (length xs)\<rfloor>
      in if 0 \<le> i \<and> i < int (length xs) then Some (xs ! nat i) else None)"

text \<open>
  The two filters of \<^verbatim>\<open>getPersonalizedFact\<close>: \<^verbatim>\<open>whereClause\<close> as first built, and
  after \<^verbatim>\<open>delete whereClause.id\<close>. The column \<^verbatim>\<open>difficultyLevel\<close> is not null, so
  \<^verbatim>\<open>user.difficultyLevel || 'MEDIUM'\<close> is the user's level.
\<close>

definition daily_where ::
  "env \<Rightarrow> user \<Rightarrow> string list \<Rightarrow> fact \<Rightarrow> bool" where
  "daily_where e usr categoryIds fct =
     (eligible (now e) fct \<and> difficulty fct = difficultyLevel usr
      \<and> (if length categoryIds > 0 then categoryId fct \<in> set categoryIds else True))"

definition daily_where_unseen ::
  "env \<Rightarrow> user \<Rightarrow> string list \<Rightarrow> string list \<Rightarrow> fact \<Rightarrow> bool" where
  "daily_where_unseen e usr categoryIds seenFactIds fct =
     (daily_where e usr categoryIds fct
      \<and> (if length seenFactIds > 0 then f_id fct \<notin> set seenFactIds else True))"

text \<open>The two lists that \<^verbatim>\<open>getPersonalizedFact\<close> reads first.\<close>

definition enabledCategoryIds :: "database \<Rightarrow> user \<Rightarrow> string list" where
  "enabledCategoryIds db usr =
     map uc_categoryId (filter (\<lambda>uc. uc_userId uc = u_id usr \<and> isEnabled uc) (userCategories db))"

definition seenFactIds :: "database \<Rightarrow> user \<Rightarrow> string list" where
  "seenFactIds db usr =
     map uf_factId (filter (\<lambda>r. uf_userId r = u_id usr \<and> isViewed r) (userFacts db))"

text \<open>The first query and the query after \<^verbatim>\<open>delete whereClause.id\<close>.\<close>

definition daily_candidates :: "env \<Rightarrow> database \<Rightarrow> user \<Rightarrow> fact list" where
  "daily_candidates e db usr =
     take 10 (sort_key (\<lambda>fct. (\<not> isFeatured fct, - f_createdAt fct))
                (filter (daily_where_unseen e usr (enabledCategoryIds db usr) (seenFactIds db usr))
                   (facts db)))"

definition daily_fallbackFacts :: "env \<Rightarrow> database \<Rightarrow> user \<Rightarrow> fact list" where
  "daily_fallbackFacts e db usr =
     take 5 (sort_key (\<lambda>fct. - f_createdAt fct)
               (filter (daily_where e usr (enabledCategoryIds db usr)) (facts db)))"

text \<open>\<^verbatim>\<open>getPersonalizedFact\<close>; \<open>None\<close> is \<^verbatim>\<open>null\<close> (or \<^verbatim>\<open>undefined\<close>).\<close>

definition getPersonalizedFact :: "env \<Rightarrow> database \<Rightarrow> user \<Rightarrow> fact option" where
  "getPersonalizedFact e db usr =
     (if fails e DailyCategoriesFindMany \<or> fails e DailySeenFindMany then None
      else if fails e DailyFactsFindMany then None
      else let candidates = daily_candidates e db usr
           in if length candidates = 0
              then (if fails e DailyFallbackFindMany then None
                    else random_element e (daily_fallbackFacts e db usr))
              else random_element e candidates)"

text \<open>The count of \<^verbatim>\<open>sendDailyFactToUser\<close>: today's sent or delivered notifications.\<close>

definition todayNotifications :: "env \<Rightarrow> database \<Rightarrow> user \<Rightarrow> nat" where
  "todayNotifications e db usr =
     (let today = now e div 86400000 * 86400000
      in length (filter (\<lambda>n. n_userId n = u_id usr
                           \<and> today \<le> n_createdAt n \<and> n_createdAt n < today + 24 * 60 * 60 * 1000
                           \<and> (n_status n = SENT \<or> n_status n = DELIVERED))
                   (notifications db)))"

text \<open>
  \<^verbatim>\<open>sendDailyFactToUser\<close>, for the token list that the notification service uses; it
  returns nothing and its \<^verbatim>\<open>catch\<close> only logs, so the result is the database.
\<close>

definition sendDailyFactToUser_with :: "string list \<Rightarrow> env \<Rightarrow> database \<Rightarrow> user \<Rightarrow> database" where
  "sendDailyFactToUser_with fcmTokens e db usr =
     (if fails e NotificationCount then db
      else if int (todayNotifications e db usr) \<ge> maxNotificationsPerDay usr then db
      else case getPersonalizedFact e db usr of
             None \<Rightarrow> db
           | Some fct \<Rightarrow> fst (sendDailyFactNotification_with fcmTokens e db (u_id usr) fct))"

definition sendDailyFactToUser :: "env \<Rightarrow> database \<Rightarrow> user \<Rightarrow> database" where
  "sendDailyFactToUser = sendDailyFactToUser_with []"

section \<open>Sample data\<close>

text \<open>Rows and environments for the concrete runs below.\<close>

definition mk_fact :: "string \<Rightarrow> string \<Rightarrow> difficulty \<Rightarrow> fact" where
  "mk_fact i c d = \<lparr>f_id = i, categoryId = c, difficulty = d, tags = [], isApproved = True,
     isFeatured = False, f_isActive = True, viewCount = 0, likeCount = 0, shareCount = 0,
     publishedAt = Some 0, f_createdAt = 0, personalizedScore = None\<rparr>"

definition mk_view :: "string \<Rightarrow> int \<Rightarrow> userFactWithFact" where
  "mk_view c t = \<lparr>uf_userId = ''u1'', uf_factId = c, isViewed = True, isLiked = False,
     isBookmarked = False, isShared = False, viewedAt = Some t, uf_updatedAt = t,
     uf_fact = mk_fact c c MEDIUM\<rparr>"

definition mk_user :: "string \<Rightarrow> bool \<Rightarrow> user" where
  "mk_user i enabled = \<lparr>u_id = i, difficultyLevel = MEDIUM, currentStreak = 0, longestStreak = 0,
     u_isActive = True, notificationsEnabled = enabled, maxNotificationsPerDay = 3\<rparr>"

definition mk_notification ::
  "string \<Rightarrow> string \<Rightarrow> notificationStatus \<Rightarrow> nat \<Rightarrow> int option \<Rightarrow> int \<Rightarrow> notification" where
  "mk_notification i u st count retryAt created = \<lparr>n_id = i, n_userId = u, n_factId = None,
     n_status = st, retryCount = count, nextRetryAt = retryAt, n_createdAt = created,
     sentAt = None, errorMessage = None\<rparr>"

definition empty_db :: database where
  "empty_db = \<lparr>facts = [], userFacts = [], users = [], userCategories = [],
     notifications = [], userSessions = []\<rparr>"

text \<open>
  The environment at clock \<open>t\<close> in which the calls of \<open>rejecting\<close> reject; the process
  runs in the zone UTC.
\<close>

definition mk_env :: "int \<Rightarrow> call list \<Rightarrow> env" where
  "mk_env t rejecting = \<lparr>now = t, fails = (\<lambda>c. c \<in> set rejecting), random = 0,
     localTZA = (\<lambda>t isUTC. 0), createdId = ''n-new'',
     sendNotification = (\<lambda>token. \<lparr>success = True, error = None\<rparr>),
     sendMulticastNotification = (\<lambda>tokens. \<lparr>success = True, error = None\<rparr>)\<rparr>"




definition nine_categories :: "userFactWithFact list" where
  "nine_categories = [mk_view ''c1'' 0, mk_view ''c2'' 0, mk_view ''c3'' 0, mk_view ''c4'' 0,
     mk_view ''c5'' 0, mk_view ''c6'' 0, mk_view ''c7'' 0, mk_view ''c8'' 0, mk_view ''c9'' 0]"

definition seven_facts :: "fact list" where
  "seven_facts = [mk_fact ''1'' ''c1'' EASY, mk_fact ''2'' ''c1'' EASY, mk_fact ''3'' ''c1'' MEDIUM,
     mk_fact ''4'' ''c2'' MEDIUM, mk_fact ''5'' ''c2'' MEDIUM, mk_fact ''6'' ''c3'' HARD,
     mk_fact ''7'' ''c3'' HARD]"

text \<open>Eight facts, the first four of a category whose id is \<^verbatim>\<open>constructor\<close>.\<close>

definition constructor_facts :: "fact list" where
  "constructor_facts = [mk_fact ''A1'' ''constructor'' EASY, mk_fact ''A2'' ''constructor'' EASY,
     mk_fact ''A3'' ''constructor'' MEDIUM, mk_fact ''A4'' ''constructor'' MEDIUM,
     mk_fact ''B1'' ''b'' HARD, mk_fact ''B2'' ''b'' HARD,
     mk_fact ''C1'' ''c'' EXPERT, mk_fact ''C2'' ''c'' EXPERT]"

text \<open>A user at the daily cap: three notifications sent or delivered on the day of the clock.\<close>

definition capped_db :: database where
  "capped_db = empty_db\<lparr>
     facts := [mk_fact ''f1'' ''c1'' MEDIUM],
     users := [mk_user ''u1'' True],
     notifications := [mk_notification ''n1'' ''u1'' SENT 0 None 86400001,
                       mk_notification ''n2'' ''u1'' DELIVERED 0 None 86400002,
                       mk_notification ''n3'' ''u1'' SENT 0 None 86400003]\<rparr>"

text \<open>The same user below the cap.\<close>

definition uncapped_db :: database where
  "uncapped_db = empty_db\<lparr>
     facts := [mk_fact ''f1'' ''c1'' MEDIUM],
     users := [mk_user ''u1'' True],
     notifications := [mk_notification ''n1'' ''u1'' SENT 0 None 86400001]\<rparr>"

text \<open>
  A user who enabled category \<open>cA\<close> only; the one fact is of category \<open>cB\<close>, at the
  user's difficulty.
\<close>

definition other_category_db :: database where
  "other_category_db = empty_db\<lparr>
     facts := [mk_fact ''fB'' ''cB'' MEDIUM],
     users := [mk_user ''u1'' True],
     userCategories := [\<lparr>uc_userId = ''u1'', uc_categoryId = ''cA'', isEnabled = True\<rparr>]\<rparr>"

text \<open>The same user, who has seen the one fact of category \<open>cA\<close>.\<close>

definition seen_category_db :: database where
  "seen_category_db = empty_db\<lparr>
     facts := [mk_fact ''fA'' ''cA'' MEDIUM, mk_fact ''fB'' ''cB'' MEDIUM],
     userFacts := [\<lparr>uf_userId = ''u1'', uf_factId = ''fA'', isViewed = True, isLiked = False,
                    isBookmarked = False, isShared = False, viewedAt = Some 5, uf_updatedAt = 5\<rparr>],
     users := [mk_user ''u1'' True],
     userCategories := [\<lparr>uc_userId = ''u1'', uc_categoryId = ''cA'', isEnabled = True\<rparr>]\<rparr>"

text \<open>
  Two eligible facts of one category: the newer one has no likes, the older one has five.
  One user, with no categories and no history.
\<close>

definition newer_fact :: fact where
  "newer_fact = (mk_fact ''fA'' ''c1'' MEDIUM)\<lparr>f_createdAt := 2\<rparr>"



text \<open>A profile without preferences or history, at the difficulty of the two facts.\<close>

definition fresh_profile :: userProfile where
  "fresh_profile = \<lparr>p_id = ''u1'', p_difficultyLevel = MEDIUM, p_currentStreak = 0,
     p_longestStreak = 0, preferredCategories = [], categoryPreferences = Map.empty,
     p_interactionStats = zero_stats,
     p_learningPatterns = \<lparr>difficultyProgression = stable, topicDiversity = 0,
       engagementTrends = stable, preferredTags = [], learningVelocity = 0,
       consistencyScore = 0\<rparr>,
     personalityScore = 1 / 2\<rparr>"


section \<open>Properties\<close>

subsection \<open>Scoring\<close>

text \<open>
  A fact of the user's difficulty, outside the preferred categories, without tags or
  interactions, created at the time of the call, for a neutral profile: the six factors
  give \<open>0.04 + 0.25 + 0.075 + 0 + 0.05 + 0.0375\<close>.
\<close>

lemma calculateFactScore_example:
  "calculateFactScore 2 newer_fact fresh_profile = 181 / 400"
  by (simp add: calculateFactScore_def calculateDifficultyMatch_def calculateTagScore_def
      calculatePopularityScore_def calculateFreshnessScore_def calculatePersonalityMatch_def
      newer_fact_def mk_fact_def fresh_profile_def Let_def)

text \<open>
  C2. For every fact, every profile and every clock value, the score that
  \<^verbatim>\<open>calculateFactScore\<close> returns lies in the closed interval from 0 to 1: the weighted
  sum of the six factors is clamped.
\<close>

theorem calculateFactScore_bounds:
  "0 \<le> calculateFactScore t fct userProfile \<and> calculateFactScore t fct userProfile \<le> 1"
  unfolding calculateFactScore_def Let_def by simp

subsection \<open>Interaction analysis\<close>

lemma analyzeTopicDiversity_eq:
  "recentViews \<noteq> [] \<Longrightarrow> analyzeTopicDiversity recentViews =
     of_nat (card (set (map (\<lambda>v. categoryId (uf_fact v)) recentViews)))
       / of_nat (min (length recentViews) 8)"
  unfolding analyzeTopicDiversity_def Let_def
  by (simp add: length_remdups_card_conv)

lemma analyzeTopicDiversity_le_1:
  assumes ne: "recentViews \<noteq> []"
      and le8: "card (set (map (\<lambda>v. categoryId (uf_fact v)) recentViews)) \<le> 8"
  shows "analyzeTopicDiversity recentViews \<le> 1"
proof -
  let ?u = "card (set (map (\<lambda>v. categoryId (uf_fact v)) recentViews))"
  have "?u \<le> length (map (\<lambda>v. categoryId (uf_fact v)) recentViews)" by (rule card_length)
  then have "?u \<le> length recentViews" by simp
  with le8 have "?u \<le> min (length recentViews) 8" by simp
  moreover have "0 < min (length recentViews) 8" using ne by simp
  ultimately have "(of_nat ?u :: rat) / of_nat (min (length recentViews) 8) \<le> 1"
    by (simp add: divide_le_eq_1)
  then show ?thesis using analyzeTopicDiversity_eq[OF ne] by simp
qed

text \<open>
  C7, as stated, fails: nine views of nine different categories have diversity \<open>9 / 8\<close>.
  The quotient has no cap.
\<close>

theorem analyzeTopicDiversity_exceeds_1:
  "nine_categories \<noteq> [] \<and> \<not> analyzeTopicDiversity nine_categories \<le> 1"
  by (simp add: analyzeTopicDiversity_def nine_categories_def mk_view_def mk_fact_def)

text \<open>
  C7, amended. For every non-empty list of recent views, \<^verbatim>\<open>analyzeTopicDiversity\<close> is
  the number of distinct categories divided by the smaller of the number of views and 8;
  it is at most 1 whenever the views touch at most eight distinct categories.
\<close>

theorem analyzeTopicDiversity_ratio:
  assumes "recentViews \<noteq> []"
  shows "analyzeTopicDiversity recentViews =
           of_nat (card (set (map (\<lambda>v. categoryId (uf_fact v)) recentViews)))
             / of_nat (min (length recentViews) 8)
         \<and> (card (set (map (\<lambda>v. categoryId (uf_fact v)) recentViews)) \<le> 8
              \<longrightarrow> analyzeTopicDiversity recentViews \<le> 1)"
  using analyzeTopicDiversity_eq[OF assms] analyzeTopicDiversity_le_1[OF assms] by blast

theorem analyzeTopicDiversity_ratio_witness:
  "[mk_view ''c1'' 0, mk_view ''c2'' 0, mk_view ''c1'' 0] \<noteq> []
   \<and> analyzeTopicDiversity [mk_view ''c1'' 0, mk_view ''c2'' 0, mk_view ''c1'' 0] = 2 / 3
   \<and> analyzeTopicDiversity [mk_view ''c1'' 0, mk_view ''c2'' 0, mk_view ''c1'' 0] \<le> 1"
proof -
  have ne: "[mk_view ''c1'' 0, mk_view ''c2'' 0, mk_view ''c1'' 0] \<noteq> []" by simp
  have cats: "set (map (\<lambda>v. categoryId (uf_fact v))
                 [mk_view ''c1'' 0, mk_view ''c2'' 0, mk_view ''c1'' 0]) = {''c1'', ''c2''}"
    by (auto simp: mk_view_def mk_fact_def)
  have "card {''c1'', ''c2''} = 2" by simp
  with analyzeTopicDiversity_ratio[OF ne] cats show ?thesis by simp
qed

lemma array_sort_set: "set (array_sort xs) = set xs"
  by (simp add: array_sort_def)

lemma array_sort_length: "length (array_sort xs) = length xs"
  by (simp add: array_sort_def)

text \<open>
  Three views one second apart are perfectly regular; three views 100 and 1900 milliseconds
  apart deviate by nine tenths of the expected gap.
\<close>

lemma calculateConsistencyScore_examples:
  "calculateConsistencyScore [mk_view ''c1'' 3000, mk_view ''c2'' 2000, mk_view ''c3'' 1000] = 1"
  "calculateConsistencyScore [mk_view ''c1'' 3000, mk_view ''c2'' 1100, mk_view ''c3'' 1000]
     = 1 / 10"
  by (simp_all add: calculateConsistencyScore_def array_sort_def number_toString_def
      viewedAt_getTime_def mk_view_def Let_def less_char_def less_eq_char_def)

text \<open>
  C8, as stated, fails: a history of one view has a single timestamp, and the guard on
  fewer than three views returns 0.
\<close>

theorem calculateConsistencyScore_single_view:
  "calculateConsistencyScore [mk_view ''c1'' 5] \<noteq> 1"
  by (simp add: calculateConsistencyScore_def)

lemma calculateConsistencyScore_short:
  "length recentViews < 3 \<Longrightarrow> calculateConsistencyScore recentViews = 0"
  by (simp add: calculateConsistencyScore_def)

lemma calculateConsistencyScore_zero_span:
  assumes "3 \<le> length recentViews"
      and "\<forall>v \<in> set recentViews. viewedAt_getTime v = t"
  shows "calculateConsistencyScore recentViews = 1"
proof -
  let ?vd = "array_sort (map viewedAt_getTime recentViews)"
  have ne: "?vd \<noteq> []"
    using assms(1) array_sort_length[of "map viewedAt_getTime recentViews"] by auto
  have sub: "set ?vd \<subseteq> {t}" using assms(2) by (auto simp: array_sort_set)
  have "last ?vd \<in> set ?vd" "hd ?vd \<in> set ?vd" using ne by simp_all
  with sub have "last ?vd = t" "hd ?vd = t" by auto
  then show ?thesis using assms(1) by (simp add: calculateConsistencyScore_def Let_def)
qed

text \<open>
  C8, amended. For every history of at least three views that all have the same timestamp,
  \<^verbatim>\<open>calculateConsistencyScore\<close> returns 1; for every history of fewer than three
  views it returns 0, whatever the timestamps.
\<close>

theorem calculateConsistencyScore_same_timestamp:
  "(3 \<le> length recentViews \<and> (\<forall>v \<in> set recentViews. viewedAt_getTime v = t)
      \<longrightarrow> calculateConsistencyScore recentViews = 1)
   \<and> (length recentViews < 3 \<longrightarrow> calculateConsistencyScore recentViews = 0)"
  using calculateConsistencyScore_zero_span[of recentViews t]
    calculateConsistencyScore_short[of recentViews]
  by blast

theorem calculateConsistencyScore_same_timestamp_witness:
  "3 \<le> length [mk_view ''c1'' 5, mk_view ''c2'' 5, mk_view ''c3'' 5]
   \<and> calculateConsistencyScore [mk_view ''c1'' 5, mk_view ''c2'' 5, mk_view ''c3'' 5] = 1
   \<and> length [mk_view ''c1'' 5, mk_view ''c2'' 5] < 3
   \<and> calculateConsistencyScore [mk_view ''c1'' 5, mk_view ''c2'' 5] = 0"
proof -
  have len: "3 \<le> length [mk_view ''c1'' 5, mk_view ''c2'' 5, mk_view ''c3'' 5]" by simp
  have same: "\<forall>v \<in> set [mk_view ''c1'' 5, mk_view ''c2'' 5, mk_view ''c3'' 5].
                 viewedAt_getTime v = 5"
    by (simp add: viewedAt_getTime_def mk_view_def)
  have short: "length [mk_view ''c1'' 5, mk_view ''c2'' 5] < 3" by simp
  from calculateConsistencyScore_same_timestamp
         [of "[mk_view ''c1'' 5, mk_view ''c2'' 5, mk_view ''c3'' 5]" 5] len same
  have one: "calculateConsistencyScore [mk_view ''c1'' 5, mk_view ''c2'' 5, mk_view ''c3'' 5] = 1"
    by blast
  from calculateConsistencyScore_same_timestamp[of "[mk_view ''c1'' 5, mk_view ''c2'' 5]" 0] short
  have zero: "calculateConsistencyScore [mk_view ''c1'' 5, mk_view ''c2'' 5] = 0"
    by blast
  from len one short zero show ?thesis by blast
qed

subsection \<open>Diversification\<close>

text \<open>The four ways through one iteration of the first loop.\<close>

lemma diversity_loop_full:
  "limit \<le> length selected \<Longrightarrow> diversity_loop limit cc dc selected (x # fs) = selected"
  by simp

lemma diversity_loop_skip_category:
  "\<not> limit \<le> length selected \<Longrightarrow>
   at_least (category_or_0 cc (categoryId x)) (max 1 (limit div 3)) \<Longrightarrow>
   diversity_loop limit cc dc selected (x # fs) = diversity_loop limit cc dc selected fs"
  by (simp only: diversity_loop.simps Let_def if_True if_False)

lemma diversity_loop_skip_difficulty:
  "\<not> limit \<le> length selected \<Longrightarrow>
   \<not> at_least (category_or_0 cc (categoryId x)) (max 1 (limit div 3)) \<Longrightarrow>
   max 2 (2 * limit div 5) \<le> count_or_0 dc (difficulty x) \<Longrightarrow>
   diversity_loop limit cc dc selected (x # fs) = diversity_loop limit cc dc selected fs"
  by (simp only: diversity_loop.simps Let_def if_True if_False)

lemma diversity_loop_admit:
  "\<not> limit \<le> length selected \<Longrightarrow>
   \<not> at_least (category_or_0 cc (categoryId x)) (max 1 (limit div 3)) \<Longrightarrow>
   \<not> max 2 (2 * limit div 5) \<le> count_or_0 dc (difficulty x) \<Longrightarrow>
   diversity_loop limit cc dc selected (x # fs) =
     diversity_loop limit (cc(categoryId x \<mapsto> plus_1 (category_or_0 cc (categoryId x))))
       (dc(difficulty x \<mapsto> count_or_0 dc (difficulty x) + 1)) (selected @ [x]) fs"
  by (simp only: diversity_loop.simps Let_def if_True if_False)

lemma category_count_append:
  "category_count c (xs @ [x]) = category_count c xs + (if categoryId x = c then 1 else 0)"
  by (simp add: category_count_def)

lemma category_or_0_update:
  "category_or_0 (cc(k \<mapsto> v)) c = (if c = k then v else category_or_0 cc c)"
  by (simp add: category_or_0_def)

text \<open>
  The invariant of the first loop, for the category ids that are not property names of
  \<^verbatim>\<open>Object.prototype\<close>: \<^verbatim>\<open>categoryCount\<close> counts the selected facts of the
  category, and the count is not above the cap.
\<close>

lemma diversity_loop_cap:
  assumes "\<forall>c. c \<notin> set object_prototype_names
             \<longrightarrow> category_or_0 cc c = Count (category_count c selected)"
      and "\<forall>c. c \<notin> set object_prototype_names
             \<longrightarrow> category_count c selected \<le> max 1 (limit div 3)"
      and "c \<notin> set object_prototype_names"
  shows "category_count c (diversity_loop limit cc dc selected fs) \<le> max 1 (limit div 3)"
  using assms(1,2)
proof (induction fs arbitrary: cc dc selected)
  case Nil
  with assms(3) show ?case by simp
next
  case (Cons x fs)
  have ih: "category_count c (diversity_loop limit cc dc selected fs) \<le> max 1 (limit div 3)"
    by (rule Cons.IH[OF Cons.prems])
  show ?case
  proof (cases "limit \<le> length selected")
    case True
    from Cons.prems(2) assms(3) have "category_count c selected \<le> max 1 (limit div 3)"
      by blast
    with True show ?thesis by (simp only: diversity_loop_full)
  next
    case full: False
    show ?thesis
    proof (cases "at_least (category_or_0 cc (categoryId x)) (max 1 (limit div 3))")
      case True
      from ih show ?thesis
        by (simp only: diversity_loop_skip_category[OF full True])
    next
      case cat: False
      show ?thesis
      proof (cases "max 2 (2 * limit div 5) \<le> count_or_0 dc (difficulty x)")
        case True
        from ih show ?thesis
          by (simp only: diversity_loop_skip_difficulty[OF full cat True])
      next
        case False
        let ?cc = "cc(categoryId x \<mapsto> plus_1 (category_or_0 cc (categoryId x)))"
        let ?dc = "dc(difficulty x \<mapsto> count_or_0 dc (difficulty x) + 1)"
        have inv1: "\<forall>c. c \<notin> set object_prototype_names
                      \<longrightarrow> category_or_0 ?cc c = Count (category_count c (selected @ [x]))"
          using Cons.prems(1) by (simp add: category_count_append category_or_0_update)
        have inv2: "\<forall>c. c \<notin> set object_prototype_names
                      \<longrightarrow> category_count c (selected @ [x]) \<le> max 1 (limit div 3)"
        proof (intro allI impI)
          fix k assume k: "k \<notin> set object_prototype_names"
          show "category_count k (selected @ [x]) \<le> max 1 (limit div 3)"
          proof (cases "categoryId x = k")
            case True
            from Cons.prems(1) k True
            have eq: "category_or_0 cc (categoryId x) = Count (category_count k selected)"
              by simp
            from cat have "\<not> max 1 (limit div 3) \<le> category_count k selected"
              by (simp only: eq at_least.simps simp_thms)
            then have "category_count k selected < max 1 (limit div 3)" by linarith
            with True show ?thesis by (simp add: category_count_append)
          next
            case False
            with Cons.prems(2) k show ?thesis by (simp add: category_count_append)
          qed
        qed
        from Cons.IH[OF inv1 inv2] show ?thesis
          by (simp only: diversity_loop_admit[OF full cat False])
      qed
    qed
  qed
qed

lemma diversity_loop_length:
  "length (diversity_loop limit cc dc selected fs) \<le> length selected + length fs"
proof (induction fs arbitrary: cc dc selected)
  case Nil
  then show ?case by simp
next
  case (Cons x fs)
  have a: "length (diversity_loop limit cc dc selected fs) \<le> length selected + length fs"
    by (rule Cons.IH)
  have b: "length (diversity_loop limit
              (cc(categoryId x \<mapsto> plus_1 (category_or_0 cc (categoryId x))))
              (dc(difficulty x \<mapsto> count_or_0 dc (difficulty x) + 1)) (selected @ [x]) fs)
           \<le> length (selected @ [x]) + length fs"
    by (rule Cons.IH)
  from a b show ?case by (auto simp: Let_def)
qed

text \<open>The first loop selects candidates only.\<close>

lemma diversity_loop_subset:
  "set (diversity_loop limit cc dc selected fs) \<subseteq> set selected \<union> set fs"
proof (induction fs arbitrary: cc dc selected)
  case Nil
  then show ?case by simp
next
  case (Cons x fs)
  have a: "set (diversity_loop limit cc dc selected fs) \<subseteq> set selected \<union> set fs"
    by (rule Cons.IH)
  have b: "set (diversity_loop limit
              (cc(categoryId x \<mapsto> plus_1 (category_or_0 cc (categoryId x))))
              (dc(difficulty x \<mapsto> count_or_0 dc (difficulty x) + 1)) (selected @ [x]) fs)
           \<subseteq> set (selected @ [x]) \<union> set fs"
    by (rule Cons.IH)
  from a b show ?case by (auto simp: Let_def)
qed

text \<open>A first loop that admits as many facts as there are has admitted them all, in order.\<close>

lemma diversity_loop_all:
  "length (diversity_loop limit cc dc selected fs) = length selected + length fs
   \<Longrightarrow> diversity_loop limit cc dc selected fs = selected @ fs"
proof (induction fs arbitrary: cc dc selected)
  case Nil
  then show ?case by simp
next
  case (Cons x fs)
  have skip: "length (diversity_loop limit cc dc selected fs) \<le> length selected + length fs"
    by (rule diversity_loop_length)
  show ?case
  proof (cases "limit \<le> length selected")
    case True
    with Cons.prems show ?thesis by (simp only: diversity_loop_full) simp
  next
    case full: False
    show ?thesis
    proof (cases "at_least (category_or_0 cc (categoryId x)) (max 1 (limit div 3))")
      case True
      from Cons.prems skip show ?thesis
        by (simp only: diversity_loop_skip_category[OF full True]) simp
    next
      case cat: False
      show ?thesis
      proof (cases "max 2 (2 * limit div 5) \<le> count_or_0 dc (difficulty x)")
        case True
        from Cons.prems skip show ?thesis
          by (simp only: diversity_loop_skip_difficulty[OF full cat True]) simp
      next
        case False
        note step = diversity_loop_admit[OF full cat False]
        from Cons.prems have "length (diversity_loop limit
            (cc(categoryId x \<mapsto> plus_1 (category_or_0 cc (categoryId x))))
            (dc(difficulty x \<mapsto> count_or_0 dc (difficulty x) + 1)) (selected @ [x]) fs)
          = length (selected @ [x]) + length fs"
          by (simp only: step) simp
        from Cons.IH[OF this] show ?thesis by (simp only: step) simp
      qed
    qed
  qed
qed

text \<open>
  What \<^verbatim>\<open>addDiversityToSelection\<close> returns when the first loop admits \<open>limit\<close>
  facts: the list itself when it is no longer than \<open>limit\<close>, and what the first loop
  selected otherwise; the backfill loop does not run.
\<close>

lemma addDiversityToSelection_unfilled:
  assumes "limit \<le> length (diversity_loop limit Map.empty Map.empty [] fs)"
  shows "addDiversityToSelection fs limit
           = Some (diversity_loop limit Map.empty Map.empty [] fs)"
proof (cases "length fs \<le> limit")
  case True
  let ?greedy = "diversity_loop limit Map.empty Map.empty [] fs"
  have "length ?greedy \<le> length fs"
    using diversity_loop_length[of limit Map.empty Map.empty "[]" fs] by simp
  with True assms have "length ?greedy = length [] + length fs" by simp
  then have "?greedy = [] @ fs" by (rule diversity_loop_all)
  with True show ?thesis by (simp add: addDiversityToSelection_def)
next
  case False
  have "fill_loop limit fs (diversity_loop limit Map.empty Map.empty [] fs)
          = Some (diversity_loop limit Map.empty Map.empty [] fs)"
    using assms by (subst fill_loop.simps) simp
  with False show ?thesis by (simp add: addDiversityToSelection_def)
qed

text \<open>
  C3. Backfill is required to reach \<open>limit\<close> items exactly when the capped walk over the
  candidates (the first loop) admits fewer than \<open>limit\<close> of them. For every candidate
  list and every limit of at least 6 for which the capped walk admits \<open>limit\<close> items,
  \<^verbatim>\<open>addDiversityToSelection\<close> returns, and no category whose id is not a property
  name of \<^verbatim>\<open>Object.prototype\<close> occurs in its result more than \<open>max 1 (limit div 3)\<close>
  times; so no category at all does when no candidate has such an id, as is the case for
  the ids that the database generates. This covers both ways through the function: the
  early return of a list no longer than \<open>limit\<close>, and the walk over a longer one.
\<close>

theorem addDiversityToSelection_category_cap:
  assumes "6 \<le> limit"
      and "limit \<le> length (diversity_loop limit Map.empty Map.empty [] fs)"
  shows "\<exists>selected. addDiversityToSelection fs limit = Some selected \<and>
           (\<forall>c. c \<notin> set object_prototype_names
                  \<longrightarrow> category_count c selected \<le> max 1 (limit div 3)) \<and>
           ((\<forall>f \<in> set fs. categoryId f \<notin> set object_prototype_names)
              \<longrightarrow> (\<forall>c. category_count c selected \<le> max 1 (limit div 3)))"
proof -
  let ?greedy = "diversity_loop limit Map.empty Map.empty [] fs"
  have cap: "category_count c ?greedy \<le> max 1 (limit div 3)"
    if "c \<notin> set object_prototype_names" for c
    using that diversity_loop_cap[of Map.empty "[]" limit c Map.empty fs]
    by (simp add: category_count_def category_or_0_def)
  have all: "category_count c ?greedy \<le> max 1 (limit div 3)"
    if ids: "\<forall>f \<in> set fs. categoryId f \<notin> set object_prototype_names" for c
  proof (cases "c \<in> set object_prototype_names")
    case False
    then show ?thesis by (rule cap)
  next
    case True
    have "set ?greedy \<subseteq> set fs"
      using diversity_loop_subset[of limit Map.empty Map.empty "[]" fs] by simp
    with ids True have "filter (\<lambda>f. categoryId f = c) ?greedy = []"
      by (auto simp: filter_empty_conv)
    then show ?thesis by (simp add: category_count_def)
  qed
  from cap all addDiversityToSelection_unfilled[OF assms(2)] show ?thesis by blast
qed

lemma seven_facts_walk:
  "diversity_loop 6 Map.empty Map.empty [] seven_facts =
     [mk_fact ''1'' ''c1'' EASY, mk_fact ''2'' ''c1'' EASY, mk_fact ''4'' ''c2'' MEDIUM,
      mk_fact ''5'' ''c2'' MEDIUM, mk_fact ''6'' ''c3'' HARD, mk_fact ''7'' ''c3'' HARD]"
  by (simp add: seven_facts_def mk_fact_def category_or_0_def object_prototype_names_def
      count_or_0_def Let_def)

theorem addDiversityToSelection_category_cap_witness:
  "(6::nat) \<le> 6 \<and> 6 \<le> length (diversity_loop 6 Map.empty Map.empty [] seven_facts)
   \<and> ''c1'' \<notin> set object_prototype_names
   \<and> (\<exists>selected. addDiversityToSelection seven_facts 6 = Some selected
         \<and> category_count ''c1'' selected \<le> 2)"
proof -
  have h1: "(6::nat) \<le> 6" by simp
  have h2: "6 \<le> length (diversity_loop 6 Map.empty Map.empty [] seven_facts)"
    by (simp add: seven_facts_walk)
  have h3: "''c1'' \<notin> set object_prototype_names" by (simp add: object_prototype_names_def)
  from addDiversityToSelection_category_cap[OF h1 h2]
  obtain selected where sel: "addDiversityToSelection seven_facts 6 = Some selected"
    and cap: "\<forall>c. c \<notin> set object_prototype_names
                \<longrightarrow> category_count c selected \<le> max 1 (6 div 3)" by blast
  from cap h3 have "category_count ''c1'' selected \<le> max 1 (6 div 3)" by blast
  moreover have "max 1 (6 div 3) = (2::nat)" by simp
  ultimately have "category_count ''c1'' selected \<le> 2" by (simp only:)
  with sel h1 h2 h3 show ?thesis by blast
qed

text \<open>
  A category whose id is a property name of \<^verbatim>\<open>Object.prototype\<close> is not capped:
  with the limit 6 the walk admits all four facts of the category \<^verbatim>\<open>constructor\<close>,
  where the cap is 2, and then two of the next category.
\<close>

lemma addDiversityToSelection_inherited_key:
  "addDiversityToSelection constructor_facts 6 =
     Some [mk_fact ''A1'' ''constructor'' EASY, mk_fact ''A2'' ''constructor'' EASY,
           mk_fact ''A3'' ''constructor'' MEDIUM, mk_fact ''A4'' ''constructor'' MEDIUM,
           mk_fact ''B1'' ''b'' HARD, mk_fact ''B2'' ''b'' HARD]"
proof -
  have walk: "diversity_loop 6 Map.empty Map.empty [] constructor_facts =
     [mk_fact ''A1'' ''constructor'' EASY, mk_fact ''A2'' ''constructor'' EASY,
      mk_fact ''A3'' ''constructor'' MEDIUM, mk_fact ''A4'' ''constructor'' MEDIUM,
      mk_fact ''B1'' ''b'' HARD, mk_fact ''B2'' ''b'' HARD]"
    by (simp add: constructor_facts_def mk_fact_def category_or_0_def
        object_prototype_names_def count_or_0_def Let_def)
  have "6 \<le> length (diversity_loop 6 Map.empty Map.empty [] constructor_facts)"
    by (simp add: walk)
  from addDiversityToSelection_unfilled[OF this] show ?thesis by (simp only: walk)
qed

text \<open>
  C9. For every candidate list no longer than \<open>limit\<close>, \<^verbatim>\<open>addDiversityToSelection\<close>
  returns the list itself: neither cap is applied.
\<close>

theorem addDiversityToSelection_identity:
  "length fs \<le> limit \<Longrightarrow> addDiversityToSelection fs limit = Some fs"
  by (simp add: addDiversityToSelection_def)

theorem addDiversityToSelection_identity_witness:
  "length [mk_fact ''1'' ''c1'' EASY, mk_fact ''2'' ''c1'' EASY, mk_fact ''3'' ''c1'' EASY] \<le> 3
   \<and> addDiversityToSelection
        [mk_fact ''1'' ''c1'' EASY, mk_fact ''2'' ''c1'' EASY, mk_fact ''3'' ''c1'' EASY] 3
      = Some [mk_fact ''1'' ''c1'' EASY, mk_fact ''2'' ''c1'' EASY, mk_fact ''3'' ''c1'' EASY]
   \<and> category_count ''c1''
        [mk_fact ''1'' ''c1'' EASY, mk_fact ''2'' ''c1'' EASY, mk_fact ''3'' ''c1'' EASY] = 3"
proof -
  have h: "length [mk_fact ''1'' ''c1'' EASY, mk_fact ''2'' ''c1'' EASY, mk_fact ''3'' ''c1'' EASY]
             \<le> 3" by simp
  have "category_count ''c1''
          [mk_fact ''1'' ''c1'' EASY, mk_fact ''2'' ''c1'' EASY, mk_fact ''3'' ''c1'' EASY] = 3"
    by (simp add: category_count_def mk_fact_def)
  with addDiversityToSelection_identity[OF h] h show ?thesis by blast
qed

subsection \<open>Daily distribution\<close>

text \<open>
  C4. For a user whose count of today's sent or delivered notifications has reached
  \<^verbatim>\<open>maxNotificationsPerDay\<close>, \<^verbatim>\<open>sendDailyFactToUser\<close> leaves the database as it is,
  whatever the token list of the notification service: no notification record is added.
\<close>

theorem sendDailyFactToUser_daily_cap:
  "int (todayNotifications e db usr) \<ge> maxNotificationsPerDay usr \<Longrightarrow>
   sendDailyFactToUser_with fcmTokens e db usr = db \<and> sendDailyFactToUser e db usr = db"
  by (simp add: sendDailyFactToUser_with_def sendDailyFactToUser_def)

lemma capped_db_count: "todayNotifications (mk_env 86500000 []) capped_db (mk_user ''u1'' True) = 3"
  by (simp add: todayNotifications_def mk_env_def capped_db_def empty_db_def mk_user_def
      mk_notification_def)

theorem sendDailyFactToUser_daily_cap_witness:
  "int (todayNotifications (mk_env 86500000 []) capped_db (mk_user ''u1'' True))
     \<ge> maxNotificationsPerDay (mk_user ''u1'' True)
   \<and> sendDailyFactToUser_with [''token''] (mk_env 86500000 []) capped_db (mk_user ''u1'' True)
       = capped_db"
proof -
  have h: "int (todayNotifications (mk_env 86500000 []) capped_db (mk_user ''u1'' True))
             \<ge> maxNotificationsPerDay (mk_user ''u1'' True)"
    by (simp add: capped_db_count) (simp add: mk_user_def)
  from sendDailyFactToUser_daily_cap[OF h, of "[''token'']"] h show ?thesis by simp
qed

text \<open>
  Below the cap the step is not idle: with a device token it adds a record and marks it
  sent.
\<close>

lemma uncapped_db_fact:
  "getPersonalizedFact (mk_env 86500000 []) uncapped_db (mk_user ''u1'' True)
     = Some (mk_fact ''f1'' ''c1'' MEDIUM)"
  by (simp add: getPersonalizedFact_def daily_candidates_def daily_where_unseen_def
      daily_where_def enabledCategoryIds_def seenFactIds_def eligible_def random_element_def
      mk_env_def uncapped_db_def empty_db_def mk_user_def mk_fact_def)

lemma sendDailyFactToUser_below_cap:
  "notifications (sendDailyFactToUser_with [''token''] (mk_env 86500000 []) uncapped_db
      (mk_user ''u1'' True))
   = [mk_notification ''n1'' ''u1'' SENT 0 None 86400001,
      \<lparr>n_id = ''n-new'', n_userId = ''u1'', n_factId = Some ''f1'', n_status = SENT,
       retryCount = 0, nextRetryAt = None, n_createdAt = 86500000, sentAt = Some 86500000,
       errorMessage = None\<rparr>]"
  apply (simp add: sendDailyFactToUser_with_def uncapped_db_fact)
  apply (simp add: todayNotifications_def sendDailyFactNotification_with_def Let_def
      mk_env_def uncapped_db_def empty_db_def mk_user_def mk_fact_def mk_notification_def)
  done

lemma random_element_mem: "random_element e xs = Some x \<Longrightarrow> x \<in> set xs"
proof -
  assume a: "random_element e xs = Some x"
  let ?i = "\<lfloor>random e * of_nat (length xs)\<rfloor>"
  from a have r: "0 \<le> ?i" "?i < int (length xs)" "x = xs ! nat ?i"
    by (auto simp: random_element_def Let_def split: if_splits)
  then have "nat ?i < length xs" by linarith
  with r(3) show ?thesis by simp
qed

text \<open>
  C6, as stated, fails: the user enabled category \<open>cA\<close>, the only fact is of category
  \<open>cB\<close> and matches the user's difficulty, and \<^verbatim>\<open>getPersonalizedFact\<close> returns
  \<^verbatim>\<open>null\<close>. A fallback query without the category restriction would have found the
  fact.
\<close>

theorem getPersonalizedFact_fallback_keeps_category:
  "getPersonalizedFact (mk_env 10 []) other_category_db (mk_user ''u1'' True) = None
   \<and> mk_fact ''fB'' ''cB'' MEDIUM \<in> set (facts other_category_db)
   \<and> eligible (now (mk_env 10 [])) (mk_fact ''fB'' ''cB'' MEDIUM)
   \<and> difficulty (mk_fact ''fB'' ''cB'' MEDIUM) = difficultyLevel (mk_user ''u1'' True)"
  by (simp add: getPersonalizedFact_def daily_candidates_def daily_fallbackFacts_def
      daily_where_unseen_def daily_where_def enabledCategoryIds_def seenFactIds_def
      eligible_def random_element_def mk_env_def other_category_db_def empty_db_def
      mk_user_def mk_fact_def)

text \<open>
  C6, amended. When no query rejects and the first query (unseen facts of the enabled
  categories at the user's difficulty) is empty, \<^verbatim>\<open>getPersonalizedFact\<close> drops the
  exclusion of seen facts only: it picks at random among the five newest eligible facts of
  the user's difficulty that are still restricted to the enabled categories (when the user
  has any), and returns \<^verbatim>\<open>null\<close> when there is none.
\<close>

theorem getPersonalizedFact_fallback:
  assumes "\<not> fails e DailyCategoriesFindMany" "\<not> fails e DailySeenFindMany"
    "\<not> fails e DailyFactsFindMany" "\<not> fails e DailyFallbackFindMany"
    "daily_candidates e db usr = []"
  shows "getPersonalizedFact e db usr = random_element e (daily_fallbackFacts e db usr) \<and>
     (\<forall>fct. getPersonalizedFact e db usr = Some fct \<longrightarrow>
        fct \<in> set (facts db) \<and> eligible (now e) fct \<and> difficulty fct = difficultyLevel usr \<and>
        (enabledCategoryIds db usr \<noteq> [] \<longrightarrow> categoryId fct \<in> set (enabledCategoryIds db usr)))"
proof -
  have eq: "getPersonalizedFact e db usr = random_element e (daily_fallbackFacts e db usr)"
    using assms by (simp add: getPersonalizedFact_def)
  have "\<And>fct. fct \<in> set (daily_fallbackFacts e db usr) \<Longrightarrow>
     fct \<in> set (facts db) \<and> daily_where e usr (enabledCategoryIds db usr) fct"
    unfolding daily_fallbackFacts_def by (auto dest!: in_set_takeD)
  then show ?thesis using eq
    by (auto simp: daily_where_def dest!: random_element_mem split: if_splits)
qed

lemma seen_category_db_lists:
  "enabledCategoryIds seen_category_db (mk_user ''u1'' True) = [''cA'']"
  "seenFactIds seen_category_db (mk_user ''u1'' True) = [''fA'']"
  by (simp_all add: enabledCategoryIds_def seenFactIds_def seen_category_db_def empty_db_def
      mk_user_def)

lemma seen_category_db_candidates:
  "daily_candidates (mk_env 10 []) seen_category_db (mk_user ''u1'' True) = []"
  by (simp add: daily_candidates_def seen_category_db_lists)
     (simp add: daily_where_unseen_def daily_where_def eligible_def mk_env_def
        seen_category_db_def empty_db_def mk_user_def mk_fact_def)

lemma seen_category_db_fallback:
  "daily_fallbackFacts (mk_env 10 []) seen_category_db (mk_user ''u1'' True)
     = [mk_fact ''fA'' ''cA'' MEDIUM]"
  by (simp add: daily_fallbackFacts_def seen_category_db_lists)
     (simp add: daily_where_def eligible_def mk_env_def
        seen_category_db_def empty_db_def mk_user_def mk_fact_def)

theorem getPersonalizedFact_fallback_witness:
  "daily_candidates (mk_env 10 []) seen_category_db (mk_user ''u1'' True) = []
   \<and> getPersonalizedFact (mk_env 10 []) seen_category_db (mk_user ''u1'' True)
       = Some (mk_fact ''fA'' ''cA'' MEDIUM)
   \<and> categoryId (mk_fact ''fA'' ''cA'' MEDIUM)
       \<in> set (enabledCategoryIds seen_category_db (mk_user ''u1'' True))"
proof -
  have f: "\<not> fails (mk_env 10 []) DailyCategoriesFindMany"
          "\<not> fails (mk_env 10 []) DailySeenFindMany"
          "\<not> fails (mk_env 10 []) DailyFactsFindMany"
          "\<not> fails (mk_env 10 []) DailyFallbackFindMany"
    by (simp_all add: mk_env_def)
  note th = getPersonalizedFact_fallback[OF f seen_category_db_candidates]
  have pick: "random_element (mk_env 10 []) [mk_fact ''fA'' ''cA'' MEDIUM]
                = Some (mk_fact ''fA'' ''cA'' MEDIUM)"
    by (simp add: random_element_def mk_env_def)
  from th have res: "getPersonalizedFact (mk_env 10 []) seen_category_db (mk_user ''u1'' True)
                = Some (mk_fact ''fA'' ''cA'' MEDIUM)"
    by (simp add: seen_category_db_fallback pick)
  with th have "categoryId (mk_fact ''fA'' ''cA'' MEDIUM)
       \<in> set (enabledCategoryIds seen_category_db (mk_user ''u1'' True))"
    by (simp add: seen_category_db_lists)
  with res seen_category_db_candidates show ?thesis by blast
qed

subsection \<open>Notification service\<close>

text \<open>
  C10, as stated, fails: when the session lookup that precedes the token check rejects,
  the call does not return a failure result; the error is rethrown.
\<close>

theorem sendDailyFactNotification_rethrows:
  "sendDailyFactNotification (mk_env 0 [SessionFindMany]) empty_db ''u1''
      (mk_fact ''f1'' ''c1'' MEDIUM)
   = (empty_db, Inl (Rejected SessionFindMany))"
  by (simp add: sendDailyFactNotification_def sendDailyFactNotification_with_def mk_env_def)

text \<open>
  C10, amended. On every call \<^verbatim>\<open>sendDailyFactNotification\<close> leaves the database as it
  is: no notification record is created and nothing else is written. When the session
  lookup does not reject, the call returns the failure result with the error
  \<^verbatim>\<open>No FCM tokens\<close>, since the token list is the constant empty array; when the lookup
  rejects, its error is rethrown, also before any write.
\<close>

theorem sendDailyFactNotification_no_write:
  "fst (sendDailyFactNotification e db userId fct) = db \<and>
   snd (sendDailyFactNotification e db userId fct) =
     (if fails e SessionFindMany then Inl (Rejected SessionFindMany)
      else Inr \<lparr>success = False, error = Some ''No FCM tokens''\<rparr>)"
  by (simp add: sendDailyFactNotification_def sendDailyFactNotification_with_def)

subsection \<open>Retry job\<close>

lemma retry_effect_id [simp]: "n_id (retry_effect e us n) = n_id n"
  by (simp add: retry_effect_def split: option.splits)

lemma notification_update_users [simp]: "users (notification_update i ch db) = users db"
  by (simp add: notification_update_def)

lemma notification_update_notifications:
  "notifications (notification_update i ch db)
     = map (\<lambda>m. if n_id m = i then ch m else m) (notifications db)"
  by (simp add: notification_update_def)




















subsection \<open>Backfill\<close>

text \<open>
  The backfill loop ends when the candidates have unique ids: one pass either reaches the
  limit or leaves no candidate whose id is not selected, and then as many facts are
  selected as there are candidates.
\<close>

lemma fill_pass_ids_mono:
  "f_id ` set selected \<subseteq> f_id ` set (fill_pass limit selected fs)"
proof (induction fs arbitrary: selected)
  case Nil
  then show ?case by simp
next
  case (Cons x fs)
  have a: "f_id ` set selected \<subseteq> f_id ` set (fill_pass limit selected fs)" by (rule Cons.IH)
  have b: "f_id ` set (selected @ [x]) \<subseteq> f_id ` set (fill_pass limit (selected @ [x]) fs)"
    by (rule Cons.IH)
  from a b show ?case by auto
qed

lemma fill_pass_covers:
  "length (fill_pass limit selected fs) < limit \<Longrightarrow>
   f_id ` set fs \<subseteq> f_id ` set (fill_pass limit selected fs)"
proof (induction fs arbitrary: selected)
  case Nil
  then show ?case by simp
next
  case (Cons x fs)
  show ?case
  proof (cases "limit \<le> length selected")
    case True
    with Cons.prems show ?thesis by simp
  next
    case notfull: False
    show ?thesis
    proof (cases "find (\<lambda>f. f_id f = f_id x) selected")
      case None
      with notfull have eq: "fill_pass limit selected (x # fs) = fill_pass limit (selected @ [x]) fs"
        by simp
      with Cons.prems have "length (fill_pass limit (selected @ [x]) fs) < limit" by simp
      from Cons.IH[OF this] fill_pass_ids_mono[of "selected @ [x]" limit fs]
      show ?thesis unfolding eq by auto
    next
      case (Some y)
      with notfull have eq: "fill_pass limit selected (x # fs) = fill_pass limit selected fs"
        by simp
      from Some have "f_id x \<in> f_id ` set selected"
        by (metis (mono_tags, lifting) find_Some_iff image_eqI nth_mem)
      with Cons.prems Cons.IH[of selected] fill_pass_ids_mono[of selected limit fs]
      show ?thesis unfolding eq by auto
    qed
  qed
qed

lemma fill_loop_stop:
  "\<not> (length selected < limit \<and> length selected < length fs) \<Longrightarrow>
   fill_loop limit fs selected = Some selected"
  by (subst fill_loop.simps) (simp only: if_False)

lemma fill_loop_again:
  "length selected < limit \<and> length selected < length fs \<Longrightarrow>
   fill_loop limit fs selected = fill_loop limit fs (fill_pass limit selected fs)"
  by (subst fill_loop.simps) (simp only: if_True simp_thms)

lemma fill_loop_returns:
  assumes "distinct (map f_id fs)"
  shows "\<exists>r. fill_loop limit fs selected = Some r"
proof (cases "length selected < limit \<and> length selected < length fs")
  case False
  then have "fill_loop limit fs selected = Some selected"
    by (rule fill_loop_stop)
  then show ?thesis by blast
next
  case True
  let ?next = "fill_pass limit selected fs"
  have first: "fill_loop limit fs selected = fill_loop limit fs ?next"
    using True by (rule fill_loop_again)
  have "\<not> (length ?next < limit \<and> length ?next < length fs)"
  proof
    assume a: "length ?next < limit \<and> length ?next < length fs"
    then have "f_id ` set fs \<subseteq> f_id ` set ?next" using fill_pass_covers by blast
    then have "card (f_id ` set fs) \<le> card (f_id ` set ?next)"
      by (intro card_mono) auto
    moreover have "card (f_id ` set fs) = length fs"
      using assms by (metis distinct_card length_map list.set_map)
    moreover have "card (f_id ` set ?next) \<le> length ?next"
      by (metis card_length length_map list.set_map)
    ultimately show False using a by linarith
  qed
  then have "fill_loop limit fs ?next = Some ?next"
    by (rule fill_loop_stop)
  with first show ?thesis by simp
qed

lemma addDiversityToSelection_returns:
  "distinct (map f_id fs) \<Longrightarrow> \<exists>r. addDiversityToSelection fs limit = Some r"
  using fill_loop_returns by (simp add: addDiversityToSelection_def)

subsection \<open>Personalized selection\<close>


lemma calculatePersonalizationScores_empty:
  "calculatePersonalizationScores e db userId userProfile = Map.empty"
  by (simp add: calculatePersonalizationScores_def cacheGet_def)









end
